theory Spec2Isabelle
  imports Main "HOL-Library.Word" "HOL-Library.Char_ord" "HOL-Library.List_Lexorder"
    "HOL-Library.Product_Lexorder"
begin

section \<open>Exceptions\<close>

text \<open>
  The sources throw \<open>std::runtime_error\<close> for every configuration error, and the reload
  handler of the manager catches exactly that type. Any exception that is not derived from
  \<open>std::runtime_error\<close> (\<open>std::invalid_argument\<close> of \<open>Manager::addTimer\<close>, for one) is
  the second constructor. A function that can throw returns \<open>exn + 'a\<close>, or the pair of the
  exception in flight (if any) and the state reached when the state survives the throw.
\<close>

datatype exn = RuntimeError string | OtherException string

section \<open>The zone of the JSON based fan control (control/json/zone.cpp)\<close>

subsection \<open>Data\<close>




text \<open>
  A zone handler sets a property of the zone's thermal mode object; it is kept as the
  data \<open>handler::setZoneProperty\<close> is bound to: the value(s) and the persist flag.
\<close>

datatype ZoneHandler = SetSupported "string list" bool | SetCurrent string bool

text \<open>The fan of the control application, as the manager and the zone use it.\<close>

record ControlFan =
  cf_name :: string
  cf_zone :: string
  cf_target :: "64 word"

text \<open>
  The members of \<open>Zone\<close> that zone.cpp reads or writes. \<open>_floorChange\<close> is iterated, so it
  is an association list; \<open>_propsPersisted\<close> is only looked up and assigned by key.
\<close>

record Zone =
  z_name :: string
  z_profiles :: "string list"
  z_incDelay :: "64 word"
  z_floor :: "64 word"
  z_target :: "64 word"
  z_fullSpeed :: "64 word"
  z_defaultFloor :: "64 word"
  z_decInterval :: "64 word"
  z_floorChange :: "(string \<times> bool) list"
  z_fans :: "ControlFan list"
  z_propsPersisted :: "string \<rightharpoonup> string list"
  z_zoneHandlers :: "ZoneHandler list"

subsection \<open>Interface property handlers\<close>

definition thermModeIntf :: string where
  "thermModeIntf = ''xyz.openbmc_project.Control.ThermalMode''"


definition currentProp :: string where
  "currentProp = ''Current''"




subsection \<open>Construction\<close>








subsection \<open>Operations\<close>

definition addFan :: "ControlFan \<Rightarrow> 'a Zone_scheme \<Rightarrow> 'a Zone_scheme" where
  "addFan fan z = z\<lparr>z_fans := z_fans z @ [fan]\<rparr>"

text \<open>\<open>Zone::requestIncrease\<close>: the body holds a TODO comment and no statement.\<close>

definition requestIncrease :: "64 word \<Rightarrow> 'a Zone_scheme \<Rightarrow> 'a Zone_scheme" where
  "requestIncrease targetDelta z = z"

text \<open>
  \<open>Zone::setFloor\<close>: \<open>std::all_of\<close> over the entries of \<open>_floorChange\<close>; the subtraction is
  the unsigned one of the source and is guarded by \<open>_target < _floor\<close>.
\<close>

definition setFloor :: "64 word \<Rightarrow> 'a Zone_scheme \<Rightarrow> 'a Zone_scheme" where
  "setFloor target z =
     (if list_all snd (z_floorChange z)
      then (let z1 = z\<lparr>z_floor := target\<rparr>
            in if z_target z1 < z_floor z1
               then requestIncrease (z_floor z1 - z_target z1) z1
               else z1)
      else z)"

text \<open>
  \<open>_propsPersisted[intf]\<close> creates an empty list for an interface that has none; the
  property is appended when \<open>std::find_if\<close> finds it in that list.
\<close>

definition persistedProps :: "'a Zone_scheme \<Rightarrow> string \<Rightarrow> string list" where
  "persistedProps z intf = (case z_propsPersisted z intf of None \<Rightarrow> [] | Some ps \<Rightarrow> ps)"

definition setPersisted :: "string \<Rightarrow> string \<Rightarrow> 'a Zone_scheme \<Rightarrow> 'a Zone_scheme" where
  "setPersisted intf prop z =
     (let props = persistedProps z intf
      in z\<lparr>z_propsPersisted := (z_propsPersisted z)
             (intf \<mapsto> (if list_ex (\<lambda>p. prop = p) props then props @ [prop] else props))\<rparr>)"

definition isPersisted :: "string \<Rightarrow> string \<Rightarrow> 'a Zone_scheme \<Rightarrow> bool" where
  "isPersisted intf prop z =
     (case z_propsPersisted z intf of
        None \<Rightarrow> False
      | Some ps \<Rightarrow> list_ex (\<lambda>p. prop = p) ps)"

subsection \<open>Decrease requests and the decrease timer\<close>





subsection \<open>Sequences of zone mutations\<close>







definition cpuZone :: Zone where
  "cpuZone =
     \<lparr>z_name = ''cpu'', z_profiles = [], z_incDelay = 5, z_floor = 80, z_target = 255,
      z_fullSpeed = 255, z_defaultFloor = 80, z_decInterval = 30, z_floorChange = [],
      z_fans = [], z_propsPersisted = Map.empty, z_zoneHandlers = []\<rparr>"

section \<open>The manager's caches (control/json/manager.cpp)\<close>

subsection \<open>Key-ordered maps\<close>

text \<open>
  A \<open>std::map\<close> that the code iterates is the list of its entries in iteration order,
  which is the order of the keys (strings compare bytewise, lexicographically).
  \<open>find\<close> is \<open>map_of\<close>; \<open>m[k] = v\<close> is \<open>map_put\<close>; \<open>m.insert({k, v})\<close>, which leaves an
  existing entry alone, is \<open>map_insert\<close>.
\<close>

fun map_put :: "'k::linorder \<Rightarrow> 'v \<Rightarrow> ('k \<times> 'v) list \<Rightarrow> ('k \<times> 'v) list" where
  "map_put k v [] = [(k, v)]"
| "map_put k v ((k', v') # m) =
     (if k = k' then (k, v) # m
      else if k < k' then (k, v) # (k', v') # m
      else (k', v') # map_put k v m)"

definition map_insert :: "'k::linorder \<times> 'v \<Rightarrow> ('k \<times> 'v) list \<Rightarrow> ('k \<times> 'v) list" where
  "map_insert kv m = (case map_of m (fst kv) of None \<Rightarrow> map_put (fst kv) (snd kv) m | Some _ \<Rightarrow> m)"

subsection \<open>Data\<close>

type_synonym configKey = "string \<times> string list"

text \<open>\<open>_servTree\<close>: path, then service, to the owned flag and the interfaces.\<close>

type_synonym ServTree = "(string \<times> (string \<times> (bool \<times> string list)) list) list"

text \<open>
  \<open>_objects\<close>: path, then interface, then property, to the value. The variant type of the
  values is declared outside the sources, so it is the type parameter \<open>'v\<close>.
\<close>

type_synonym 'v Objects = "(string \<times> (string \<times> (string \<times> 'v) list) list) list"

record 'v Cache =
  c_servTree :: ServTree
  c_objects :: "'v Objects"

text \<open>
  The three calls of \<open>util::SDBusPlus\<close> that fill the caches, as the answers of the bus:
  the subtree of "/" for an interface and a depth, a property of an object of a service,
  and the managed objects of a service under an object manager path.
\<close>

record 'v Bus =
  getSubTreeRaw :: "string \<Rightarrow> int \<Rightarrow> (string \<times> (string \<times> string list) list) list"
  getPropertyVariant :: "string \<Rightarrow> string \<Rightarrow> string \<Rightarrow> string \<Rightarrow> 'v"
  getManagedObjects :: "string \<Rightarrow> string \<Rightarrow> 'v Objects"

subsection \<open>Profiles\<close>

text \<open>
  \<open>Manager::inConfig\<close>; the static list of active profiles it reads through
  \<open>getActiveProfiles\<close> is the first argument.
\<close>

definition inConfig :: "string list \<Rightarrow> configKey \<Rightarrow> configKey \<Rightarrow> bool" where
  "inConfig activeProfs input cmp =
     (if fst input \<noteq> fst cmp then False
      else if snd input = [] then True
      else list_ex (\<lambda>lProfile.
             list_ex (\<lambda>rProfile.
               if lProfile \<noteq> rProfile then False
               else List.member activeProfs lProfile) (snd cmp)) (snd input))"

subsection \<open>Services\<close>

definition hasOwner :: "string \<Rightarrow> string \<Rightarrow> ServTree \<Rightarrow> bool" where
  "hasOwner path intf servTree =
     (case map_of servTree path of
        None \<Rightarrow> False
      | Some services \<Rightarrow>
          (case find (\<lambda>service. list_ex (\<lambda>interface. intf = interface) (snd (snd service)))
                  services of
             None \<Rightarrow> False
           | Some service \<Rightarrow> fst (snd service)))"

text \<open>
  \<open>Manager::setOwner\<close>: \<open>_servTree[path][serv]\<close> creates the entry \<open>(false, {})\<close> when it is
  missing; the loop then visits every other path.
\<close>

definition setOwner :: "string \<Rightarrow> string \<Rightarrow> string \<Rightarrow> bool \<Rightarrow> ServTree \<Rightarrow> ServTree" where
  "setOwner path serv intf isOwned servTree =
     (let services = (case map_of servTree path of None \<Rightarrow> [] | Some ss \<Rightarrow> ss);
          ownIntf = (case map_of services serv of None \<Rightarrow> (False, []) | Some oi \<Rightarrow> oi);
          intfs = (if list_ex (\<lambda>interface. intf = interface) (snd ownIntf)
                   then snd ownIntf else snd ownIntf @ [intf]);
          servTree1 = map_put path (map_put serv (isOwned, intfs) services) servTree
      in map (\<lambda>itPath.
                if fst itPath = path then itPath
                else (fst itPath,
                      map (\<lambda>itServ.
                             if fst itServ \<noteq> serv then itServ
                             else if list_ex (\<lambda>interface. intf = interface) (snd (snd itServ))
                             then (fst itServ, (isOwned, snd (snd itServ)))
                             else itServ)
                          (snd itPath)))
             servTree1)"

definition findService :: "string \<Rightarrow> string \<Rightarrow> ServTree \<Rightarrow> string" where
  "findService path intf servTree =
     (case map_of servTree path of
        None \<Rightarrow> []
      | Some services \<Rightarrow>
          (case find (\<lambda>service. list_ex (\<lambda>interface. intf = interface) (snd (snd service)))
                  services of
             None \<Rightarrow> []
           | Some service \<Rightarrow> fst service))"

text \<open>The three nested loops of \<open>Manager::addServices\<close>, innermost first.\<close>

definition addIntf :: "string \<Rightarrow> string list \<Rightarrow> string list" where
  "addIntf itIntf cached = (if List.member cached itIntf then cached else cached @ [itIntf])"

definition addServ ::
  "string \<Rightarrow> string \<times> string list \<Rightarrow> (string \<times> (bool \<times> string list)) list \<Rightarrow>
   (string \<times> (bool \<times> string list)) list" where
  "addServ intf itServ services =
     (case map_of services (fst itServ) of
        Some servIter \<Rightarrow>
          map_put (fst itServ) (fst servIter, fold addIntf (snd itServ) (snd servIter)) services
      | None \<Rightarrow> map_put (fst itServ) (True, [intf]) services)"

definition addPath ::
  "string \<Rightarrow> string \<times> (string \<times> string list) list \<Rightarrow> ServTree \<Rightarrow> ServTree" where
  "addPath intf itPath servTree =
     (case map_of servTree (fst itPath) of
        Some services \<Rightarrow> map_put (fst itPath) (fold (addServ intf) (snd itPath) services) servTree
      | None \<Rightarrow>
          fold (\<lambda>serv tree.
                  map_put (fst itPath)
                    (map_put (fst serv) (True, [intf])
                       (case map_of tree (fst itPath) of None \<Rightarrow> [] | Some ss \<Rightarrow> ss))
                    tree)
               (snd itPath) servTree)"

definition addServices :: "'v Bus \<Rightarrow> string \<Rightarrow> int \<Rightarrow> ServTree \<Rightarrow> ServTree" where
  "addServices bus intf depth servTree =
     fold (addPath intf) (getSubTreeRaw bus intf depth) servTree"

definition getService :: "'v Bus \<Rightarrow> string \<Rightarrow> string \<Rightarrow> ServTree \<Rightarrow> string \<times> ServTree" where
  "getService bus path intf servTree =
     (let serviceName = findService path intf servTree
      in if serviceName = []
         then (let servTree' = addServices bus intf 0 servTree
               in (findService path intf servTree', servTree'))
         else (serviceName, servTree))"

definition findPaths :: "string \<Rightarrow> string \<Rightarrow> ServTree \<Rightarrow> string list" where
  "findPaths serv intf servTree =
     fold (\<lambda>path paths.
             case map_of (snd path) serv of
               None \<Rightarrow> paths
             | Some itServ \<Rightarrow>
                 if List.member (snd itServ) intf
                 then (if List.member paths (fst path) then paths else paths @ [fst path])
                 else paths)
          servTree []"

definition getPaths :: "'v Bus \<Rightarrow> string \<Rightarrow> string \<Rightarrow> ServTree \<Rightarrow> string list \<times> ServTree" where
  "getPaths bus serv intf servTree =
     (let paths = findPaths serv intf servTree
      in if paths = []
         then (let servTree' = addServices bus intf 0 servTree
               in (findPaths serv intf servTree', servTree'))
         else (paths, servTree))"

subsection \<open>Objects\<close>

definition getProperty :: "string \<Rightarrow> string \<Rightarrow> string \<Rightarrow> 'v Objects \<Rightarrow> 'v option" where
  "getProperty path intf prop objects =
     (case map_of objects path of
        None \<Rightarrow> None
      | Some interfaces \<Rightarrow>
          (case map_of interfaces intf of
             None \<Rightarrow> None
           | Some properties \<Rightarrow> map_of properties prop))"

text \<open>
  The body of the loop over the managed objects in \<open>Manager::addObjects\<close>. For a path found
  in the cache the source iterates \<open>itPath->second\<close>, the cached interfaces, and for each
  of them \<open>itIntf->second\<close>, the cached properties: \<open>interface\<close> and \<open>property\<close> below are
  entries of the cache, and \<open>object.second\<close> is read only when the path is not cached.
\<close>

definition mergeProperty :: "string \<times> 'v \<Rightarrow> (string \<times> 'v) list \<Rightarrow> (string \<times> 'v) list" where
  "mergeProperty property itIntf =
     (case map_of itIntf (fst property) of
        Some itProp \<Rightarrow> map_put (fst property) (snd property) itIntf
      | None \<Rightarrow> map_insert property itIntf)"

definition mergeInterface ::
  "string \<times> (string \<times> 'v) list \<Rightarrow> (string \<times> (string \<times> 'v) list) list \<Rightarrow>
   (string \<times> (string \<times> 'v) list) list" where
  "mergeInterface interface itPath =
     (case map_of itPath (fst interface) of
        Some itIntf \<Rightarrow> map_put (fst interface) (fold mergeProperty itIntf itIntf) itPath
      | None \<Rightarrow> map_insert interface itPath)"

definition addObject ::
  "string \<times> (string \<times> (string \<times> 'v) list) list \<Rightarrow> 'v Objects \<Rightarrow> 'v Objects" where
  "addObject object objects =
     (case map_of objects (fst object) of
        Some itPath \<Rightarrow> map_put (fst object) (fold mergeInterface itPath itPath) objects
      | None \<Rightarrow> map_insert object objects)"

definition objectManagerIntf :: string where
  "objectManagerIntf = ''org.freedesktop.DBus.ObjectManager''"

definition addObjects :: "'v Bus \<Rightarrow> string \<Rightarrow> string \<Rightarrow> string \<Rightarrow> 'v Cache \<Rightarrow> 'v Cache" where
  "addObjects bus path intf prop cache =
     (let (service, servTree1) = getService bus path intf (c_servTree cache)
      in if service = [] then cache\<lparr>c_servTree := servTree1\<rparr>
         else
           (let (objMgrPaths, servTree2) = getPaths bus service objectManagerIntf servTree1
            in if objMgrPaths = []
               then
                 (let variant = getPropertyVariant bus service path intf prop;
                      interfaces = (case map_of (c_objects cache) path of
                                      None \<Rightarrow> [] | Some is \<Rightarrow> is);
                      properties = (case map_of interfaces intf of None \<Rightarrow> [] | Some ps \<Rightarrow> ps)
                  in cache\<lparr>c_servTree := servTree2,
                           c_objects := map_put path
                             (map_put intf (map_put prop variant properties) interfaces)
                             (c_objects cache)\<rparr>)
               else cache\<lparr>c_servTree := servTree2,
                          c_objects :=
                            fold (\<lambda>objMgrPath objects.
                                    fold addObject (getManagedObjects bus service objMgrPath) objects)
                                 objMgrPaths (c_objects cache)\<rparr>))"

text \<open>
  A service "fans" that owns the sensor object below its object manager, the cached speed
  1000 of that sensor, and a bus whose managed objects report the speed 2000 for it, and
  a second sensor that the cache does not hold.
\<close>

definition fanServTree :: ServTree where
  "fanServTree =
     [(''/sensors'', [(''fans'', (True, [objectManagerIntf]))]),
      (''/sensors/fan0'', [(''fans'', (True, [''Sensor.Value'']))])]"

definition fanCache :: "nat Cache" where
  "fanCache =
     \<lparr>c_servTree = fanServTree,
      c_objects = [(''/sensors/fan0'', [(''Sensor.Value'', [(''Value'', 1000)])])]\<rparr>"

definition fanBus :: "nat Bus" where
  "fanBus =
     \<lparr>getSubTreeRaw = (\<lambda>intf depth. []),
      getPropertyVariant = (\<lambda>service path intf prop. 2000),
      getManagedObjects = (\<lambda>service objMgrPath.
        [(''/sensors/fan0'', [(''Sensor.Value'', [(''Value'', 2000)])]),
         (''/sensors/fan1'', [(''Sensor.Value'', [(''Value'', 3000)])])])\<rparr>"

definition twoFansTree :: ServTree where
  "twoFansTree =
     [(''/sensors/fan0'', [(''fans'', (True, [''Sensor.Value'']))]),
      (''/sensors/fan1'', [(''fans'', (True, [''Sensor.Value'']))]),
      (''/sensors/psu0'', [(''power'', (True, [''Sensor.Value'']))])]"

section \<open>The manager's configuration (control/json/manager.cpp)\<close>

subsection \<open>Data\<close>

text \<open>
  Modelled from the spec: the zone the manager holds has a power-on target
  (\<open>getPoweronTarget\<close>, declared in zone.hpp, which is not among the sources; the spec's
  Zone has the field \<open>poweron_target: u64\<close>).
\<close>

record ManagedZone = Zone +
  z_poweronTarget :: "64 word"

text \<open>
  Modelled from the spec: \<open>Zone::setTarget\<close> and \<open>Zone::getTarget\<close> (zone.hpp, not among
  the sources), the spec's \<open>set_target(u64)\<close> and \<open>get_target()\<close>: the target is stored and
  read back.
\<close>

definition setTarget :: "64 word \<Rightarrow> 'a Zone_scheme \<Rightarrow> 'a Zone_scheme" where
  "setTarget target z = z\<lparr>z_target := target\<rparr>"

definition getTarget :: "'a Zone_scheme \<Rightarrow> 64 word" where
  "getTarget z = z_target z"

definition getPoweronTarget :: "ManagedZone \<Rightarrow> 64 word" where
  "getPoweronTarget z = z_poweronTarget z"

text \<open>
  Modelled from the spec: the triggers of an event (event.hpp and trigger code, not among
  the sources): \<open>Init\<close>, \<open>Signal{match_rule}\<close>, \<open>Timer{oneshot|repeating, interval}\<close>,
  \<open>PowerOn\<close> and \<open>PowerOff\<close>. An event holds its triggers, and the triggers it has fired
  so far, oldest first.
\<close>

datatype TimerType = oneshot | repeating

datatype Trigger = Init | Signal string | Timer TimerType nat | PowerOn | PowerOff

record Event =
  ev_name :: string
  ev_triggers :: "Trigger list"
  ev_fired :: "Trigger list"

text \<open>
  Modelled from the spec: \<open>Event::powerOn\<close> and \<open>Event::powerOff\<close> (event.cpp, not among
  the sources) run the event's power on, respectively power off, triggers.
\<close>

definition powerOn :: "Event \<Rightarrow> Event" where
  "powerOn e = e\<lparr>ev_fired := ev_fired e @ filter (\<lambda>t. t = PowerOn) (ev_triggers e)\<rparr>"

definition powerOff :: "Event \<Rightarrow> Event" where
  "powerOff e = e\<lparr>ev_fired := ev_fired e @ filter (\<lambda>t. t = PowerOff) (ev_triggers e)\<rparr>"

text \<open>
  Modelled from the spec: a profile (profile.hpp, not among the sources) has a name, the
  profiles it is configured under and its \<open>active\<close> flag; a group has a name, members, an
  interface and a property.
\<close>

record Profile =
  pr_name :: string
  pr_profiles :: "string list"
  pr_active :: bool

record Group =
  g_name :: string
  g_members :: "string list"
  g_interface :: string
  g_property :: string

text \<open>
  The members of \<open>Manager\<close> that \<open>load\<close>, \<open>sighupHandler\<close> and \<open>powerStateChanged\<close> use.
  The maps are keyed by \<open>configKey\<close> and listed in key order. A timer is named by its type
  and name, a signal subscription by its match rule. \<open>m_allGroups\<close> is the static map
  behind \<open>Event::getAllGroups\<close>, \<open>clearAllGroups\<close> and \<open>setAllGroups\<close>.
\<close>

record Manager =
  m_profiles :: "(configKey \<times> Profile) list"
  m_activeProfiles :: "string list"
  m_loadAllowed :: bool
  m_zones :: "(configKey \<times> ManagedZone) list"
  m_events :: "(configKey \<times> Event) list"
  m_timers :: "(TimerType \<times> string) list"
  m_signals :: "string list"
  m_allGroups :: "(configKey \<times> Group) list"

text \<open>
  What the code outside the sources answers during one \<open>load\<close>:
  \<^item> \<open>JsonConfig::getConfFile\<close> for the optional profiles file (empty when there is none);
  \<^item> \<open>JsonConfig::load\<close> of that file, and for each entry the \<open>Profile\<close> constructed from it;
  \<^item> \<open>getConfig<Zone>\<close>, \<open>getConfig<Fan>\<close> and \<open>getConfig<Event>\<close>, given the active profiles;
  \<^item> the groups that loading the events has registered when it returns or throws;
  \<^item> \<open>enable()\<close> of a zone and of an event.
  Each of them returns or throws.
\<close>

record LoadEnv =
  confFile :: "exn + string"
  profileEntries :: "exn + (exn + Profile) list"
  zoneConfig :: "string list \<Rightarrow> exn + (configKey \<times> ManagedZone) list"
  fanConfig :: "string list \<Rightarrow> exn + (configKey \<times> ControlFan) list"
  eventGroups :: "(configKey \<times> Group) list"
  eventConfig :: "string list \<Rightarrow> exn + (configKey \<times> Event) list"
  zoneEnable :: "configKey \<Rightarrow> exn option"
  eventEnable :: "configKey \<Rightarrow> exn option"

subsection \<open>Loading\<close>

text \<open>
  The loop of \<open>Manager::setProfiles\<close> over the entries of the profiles file;
  \<open>std::map::emplace\<close> keeps an entry that is already there.
\<close>

fun emplaceProfiles ::
  "(exn + Profile) list \<Rightarrow> (configKey \<times> Profile) list \<Rightarrow>
   exn option \<times> (configKey \<times> Profile) list" where
  "emplaceProfiles [] profiles = (None, profiles)"
| "emplaceProfiles (entry # rest) profiles =
     (case entry of
        Inl e \<Rightarrow> (Some e, profiles)
      | Inr obj \<Rightarrow>
          emplaceProfiles rest (map_insert ((pr_name obj, pr_profiles obj), obj) profiles))"

definition setProfiles :: "LoadEnv \<Rightarrow> Manager \<Rightarrow> exn option \<times> Manager" where
  "setProfiles env m =
     (case confFile env of
        Inl e \<Rightarrow> (Some e, m)
      | Inr file \<Rightarrow>
          (let m1 = m\<lparr>m_profiles := []\<rparr>;
               loaded = (if file \<noteq> []
                         then (case profileEntries env of
                                 Inl e \<Rightarrow> (Some e, m_profiles m1)
                               | Inr entries \<Rightarrow> emplaceProfiles entries (m_profiles m1))
                         else (None, m_profiles m1))
           in case fst loaded of
                Some e \<Rightarrow> (Some e, m1\<lparr>m_profiles := snd loaded\<rparr>)
              | None \<Rightarrow>
                  (None, m1\<lparr>m_profiles := snd loaded,
                            m_activeProfiles :=
                              map (\<lambda>profile. fst (fst profile))
                                  (filter (\<lambda>profile. pr_active (snd profile)) (snd loaded))\<rparr>)))"

text \<open>
  The body of the loop over the fans in \<open>Manager::load\<close>: \<open>std::find_if\<close> takes the first
  zone whose key is compatible with the fan's zone name and profiles.
\<close>

fun placeFan ::
  "string list \<Rightarrow> configKey \<times> ControlFan \<Rightarrow> (configKey \<times> ManagedZone) list \<Rightarrow>
   (configKey \<times> ManagedZone) list" where
  "placeFan activeProfs fan [] = []"
| "placeFan activeProfs fan (zone # zones) =
     (if inConfig activeProfs (cf_zone (snd fan), snd (fst fan)) (fst zone)
      then (fst zone,
            addFan (snd fan)
              (if getTarget (snd zone) \<noteq> cf_target (snd fan) \<and> cf_target (snd fan) \<noteq> 0
               then setTarget (cf_target (snd fan)) (snd zone)
               else snd zone)) # zones
      else zone # placeFan activeProfs fan zones)"

text \<open>\<open>std::for_each\<close> calling \<open>enable()\<close>: the first throw ends the loop.\<close>

fun enableAll :: "(configKey \<Rightarrow> exn option) \<Rightarrow> configKey list \<Rightarrow> exn option" where
  "enableAll enable [] = None"
| "enableAll enable (k # ks) =
     (case enable k of Some e \<Rightarrow> Some e | None \<Rightarrow> enableAll enable ks)"

text \<open>
  \<open>Manager::load\<close>. The result is the exception that leaves \<open>load\<close>, if any, and the manager
  as the exception or the return leaves it. Only a \<open>std::runtime_error\<close> of the event
  loading puts the saved groups back.
\<close>

definition load :: "LoadEnv \<Rightarrow> Manager \<Rightarrow> exn option \<times> Manager" where
  "load env m =
     (if m_loadAllowed m
      then
        (case setProfiles env m of
           (Some e, m1) \<Rightarrow> (Some e, m1)
         | (None, m1) \<Rightarrow>
             (case zoneConfig env (m_activeProfiles m1) of
                Inl e \<Rightarrow> (Some e, m1)
              | Inr zones0 \<Rightarrow>
                  (case fanConfig env (m_activeProfiles m1) of
                     Inl e \<Rightarrow> (Some e, m1)
                   | Inr fans \<Rightarrow>
                       (let zones = fold (placeFan (m_activeProfiles m1)) fans zones0;
                            groups = m_allGroups m1;
                            m2 = m1\<lparr>m_allGroups := []\<rparr>
                        in case eventConfig env (m_activeProfiles m1) of
                             Inl (RuntimeError re) \<Rightarrow>
                               (Some (RuntimeError re), m2\<lparr>m_allGroups := groups\<rparr>)
                           | Inl (OtherException oe) \<Rightarrow>
                               (Some (OtherException oe), m2\<lparr>m_allGroups := eventGroups env\<rparr>)
                           | Inr events \<Rightarrow>
                               (let m3 = m2\<lparr>m_allGroups := eventGroups env, m_zones := zones\<rparr>
                                in case enableAll (zoneEnable env) (map fst zones) of
                                     Some e \<Rightarrow> (Some e, m3)
                                   | None \<Rightarrow>
                                       (let m4 = m3\<lparr>m_timers := [], m_signals := [],
                                                     m_events := events\<rparr>
                                        in case enableAll (eventEnable env) (map fst events) of
                                             Some e \<Rightarrow> (Some e, m4)
                                           | None \<Rightarrow> (None, m4\<lparr>m_loadAllowed := False\<rparr>)))))))
      else (None, m))"

text \<open>
  \<open>Manager::sighupHandler\<close>: the two swaps move the profiles and the active profiles into
  locals and leave the members empty; the handler catches \<open>std::runtime_error\<close> only.
\<close>

definition reloadStart :: "Manager \<Rightarrow> Manager" where
  "reloadStart m = m\<lparr>m_profiles := [], m_activeProfiles := [], m_loadAllowed := True\<rparr>"

definition sighupHandler :: "LoadEnv \<Rightarrow> Manager \<Rightarrow> exn option \<times> Manager" where
  "sighupHandler env m =
     (let profiles = m_profiles m;
          activeProfiles = m_activeProfiles m
      in case load env (reloadStart m) of
           (None, m1) \<Rightarrow> (None, m1)
         | (Some (RuntimeError re), m1) \<Rightarrow>
             (None, m1\<lparr>m_loadAllowed := False, m_profiles := profiles,
                       m_activeProfiles := activeProfiles\<rparr>)
         | (Some (OtherException oe), m1) \<Rightarrow> (Some (OtherException oe), m1))"

subsection \<open>Power state\<close>

definition powerStateChanged :: "bool \<Rightarrow> Manager \<Rightarrow> exn option \<times> Manager" where
  "powerStateChanged powerStateOn m =
     (if powerStateOn
      then (if m_zones m = []
            then (Some (RuntimeError ''No configured zones found at poweron''), m)
            else (None,
                  m\<lparr>m_zones := map (\<lambda>entry. (fst entry,
                                      setTarget (getPoweronTarget (snd entry)) (snd entry)))
                                   (m_zones m),
                    m_events := map (\<lambda>entry. (fst entry, powerOn (snd entry))) (m_events m)\<rparr>))
      else (None,
            m\<lparr>m_events := map (\<lambda>entry. (fst entry, powerOff (snd entry))) (m_events m)\<rparr>))"

subsection \<open>A running manager and three reloads\<close>

definition liveZone :: "string \<Rightarrow> 64 word \<Rightarrow> ManagedZone" where
  "liveZone name poweron =
     \<lparr>z_name = name, z_profiles = [], z_incDelay = 5, z_floor = 80, z_target = 120,
      z_fullSpeed = 255, z_defaultFloor = 80, z_decInterval = 30, z_floorChange = [],
      z_fans = [], z_propsPersisted = Map.empty, z_zoneHandlers = [],
      z_poweronTarget = poweron\<rparr>"

definition liveEvent :: Event where
  "liveEvent =
     \<lparr>ev_name = ''speed'', ev_triggers = [Init, PowerOn, Signal ''temp'', PowerOff],
      ev_fired = [Init]\<rparr>"

definition liveManager :: Manager where
  "liveManager =
     \<lparr>m_profiles = [((''air'', []), \<lparr>pr_name = ''air'', pr_profiles = [], pr_active = True\<rparr>)],
      m_activeProfiles = [''air''],
      m_loadAllowed = False,
      m_zones = [((''A'', []), liveZone ''A'' 200), ((''B'', []), liveZone ''B'' 180)],
      m_events = [((''speed'', []), liveEvent)],
      m_timers = [(repeating, ''poll'')],
      m_signals = [''temp''],
      m_allGroups = [((''temps'', []),
                      \<lparr>g_name = ''temps'', g_members = [''/sensors/temp0''],
                       g_interface = ''Sensor.Value'', g_property = ''Value''\<rparr>)]\<rparr>"

text \<open>A reload that finds the zone C and a malformed events file.\<close>

definition badEventsEnv :: LoadEnv where
  "badEventsEnv =
     \<lparr>confFile = Inr [],
      profileEntries = Inr [],
      zoneConfig = (\<lambda>active. Inr [((''C'', []), liveZone ''C'' 150)]),
      fanConfig = (\<lambda>active. Inr [((''fan0'', []),
                     \<lparr>cf_name = ''fan0'', cf_zone = ''C'', cf_target = 100\<rparr>)]),
      eventGroups = [],
      eventConfig = (\<lambda>active. Inl (RuntimeError ''Failed to parse JSON config file'')),
      zoneEnable = (\<lambda>key. None),
      eventEnable = (\<lambda>key. None)\<rparr>"

text \<open>A reload whose files load, and whose zone C throws from \<open>enable()\<close>.\<close>

definition badEnableEnv :: LoadEnv where
  "badEnableEnv =
     badEventsEnv\<lparr>eventConfig := (\<lambda>active. Inr []),
                  zoneEnable := (\<lambda>key. Some (RuntimeError ''enable failed''))\<rparr>"

text \<open>A reload whose zones file makes the JSON library throw its own exception type.\<close>

definition badTypeEnv :: LoadEnv where
  "badTypeEnv =
     badEventsEnv\<lparr>zoneConfig := (\<lambda>active. Inl (OtherException ''type must be number''))\<rparr>"

section \<open>The fan monitor (monitor/fan.cpp)\<close>

subsection \<open>Data\<close>

record TachSensor =
  ts_name :: string
  ts_functional :: bool

text \<open>
  A \<open>Notify\<close> call to the inventory: the fan, the value of \<open>Functional\<close> sent, and whether
  the response was a method error. The calls made so far are kept oldest first.
\<close>

record NotifyCall =
  nc_fan :: string
  nc_functional :: bool
  nc_error :: bool

record MonitorFan =
  mf_name :: string
  mf_numSensorFailsForNonFunc :: nat
  mf_sensors :: "TachSensor list"
  mf_functional :: bool
  mf_inventory :: "NotifyCall list"

subsection \<open>Operations\<close>

definition tooManySensorsNonfunctional :: "MonitorFan \<Rightarrow> bool" where
  "tooManySensorsNonfunctional fan =
     (let numFailed = length (filter (\<lambda>s. \<not> ts_functional s) (mf_sensors fan))
      in numFailed \<ge> mf_numSensorFailsForNonFunc fan)"

text \<open>
  \<open>Fan::updateInventory\<close>; the first argument is \<open>response.is_method_error()\<close> of the
  \<open>Notify\<close> call it makes.
\<close>

definition updateInventory :: "bool \<Rightarrow> bool \<Rightarrow> MonitorFan \<Rightarrow> MonitorFan" where
  "updateInventory is_method_error functional fan =
     (let fan1 = fan\<lparr>mf_inventory := mf_inventory fan @
                   [\<lparr>nc_fan = mf_name fan, nc_functional = functional,
                     nc_error = is_method_error\<rparr>]\<rparr>
      in if is_method_error then fan1 else fan1\<lparr>mf_functional := functional\<rparr>)"

text \<open>
  \<open>Fan::timerExpired\<close>; the sensor, a reference to one of the fan's sensors in the source,
  is named by its position in \<open>_sensors\<close>. The first argument is the answer of the
  inventory to the \<open>Notify\<close> call, if one is made.
\<close>

definition setFunctional :: "bool \<Rightarrow> TachSensor \<Rightarrow> TachSensor" where
  "setFunctional functional s = s\<lparr>ts_functional := functional\<rparr>"

definition timerExpired :: "bool \<Rightarrow> nat \<Rightarrow> MonitorFan \<Rightarrow> MonitorFan" where
  "timerExpired is_method_error sensor fan =
     (let fan1 = (if sensor < length (mf_sensors fan)
                  then fan\<lparr>mf_sensors := (mf_sensors fan)
                             [sensor := setFunctional False (mf_sensors fan ! sensor)]\<rparr>
                  else fan)
      in if mf_functional fan1 \<and> tooManySensorsNonfunctional fan1
         then updateInventory is_method_error False fan1
         else fan1)"

text \<open>A run of \<open>updateInventory\<close> calls, each with the value sent and the bus's answer.\<close>

definition updateAll :: "(bool \<times> bool) list \<Rightarrow> MonitorFan \<Rightarrow> MonitorFan" where
  "updateAll calls fan = fold (\<lambda>call. updateInventory (snd call) (fst call)) calls fan"

text \<open>The value of \<open>Functional\<close> that the last successful \<open>Notify\<close> call published.\<close>

definition lastPublished :: "NotifyCall list \<Rightarrow> bool option" where
  "lastPublished calls =
     (case rev (filter (\<lambda>c. \<not> nc_error c) calls) of
        [] \<Rightarrow> None
      | c # cs \<Rightarrow> Some (nc_functional c))"

definition numNonfunctional :: "MonitorFan \<Rightarrow> nat" where
  "numNonfunctional fan = length (filter (\<lambda>s. \<not> ts_functional s) (mf_sensors fan))"

text \<open>The fan of scenario S5: three sensors, two failures make it nonfunctional.\<close>

definition fan0 :: MonitorFan where
  "fan0 =
     \<lparr>mf_name = ''fan0'', mf_numSensorFailsForNonFunc = 2,
      mf_sensors = [\<lparr>ts_name = ''fan0_0'', ts_functional = False\<rparr>,
                    \<lparr>ts_name = ''fan0_1'', ts_functional = True\<rparr>,
                    \<lparr>ts_name = ''fan0_2'', ts_functional = True\<rparr>],
      mf_functional = True,
      mf_inventory = [\<lparr>nc_fan = ''fan0'', nc_functional = True, nc_error = False\<rparr>]\<rparr>"

section \<open>Properties of the zone\<close>


text \<open>
  C1. The specification has \<open>request_increase(delta)\<close> raise the target to
  \<open>min(target + delta, full_speed)\<close> and push it to the fans. \<open>Zone::requestIncrease\<close> has
  an empty body: on a zone at target 100 with full speed 255, a request for 40 leaves the
  target at 100, where the specification asks for 140, and no fan is touched.
\<close>

theorem requestIncrease_leaves_target:
  "z_target (requestIncrease 40 (cpuZone\<lparr>z_target := 100\<rparr>)) = 100
   \<and> min ((100::64 word) + 40) (z_fullSpeed (cpuZone\<lparr>z_target := 100\<rparr>)) = 140
   \<and> requestIncrease 40 (cpuZone\<lparr>z_target := 100\<rparr>) = cpuZone\<lparr>z_target := 100\<rparr>"
  by (simp add: requestIncrease_def cpuZone_def)





text \<open>
  A floor above the target makes \<open>setFloor\<close> call \<open>requestIncrease\<close>, whose body is empty
  (C1): in scenario S2 of the specification the target stays at 90 under the floor 120.
\<close>

lemma setFloor_above_target:
  "z_floor (setFloor 120 (cpuZone\<lparr>z_target := 90\<rparr>)) = 120
   \<and> z_target (setFloor 120 (cpuZone\<lparr>z_target := 90\<rparr>)) = 90"
  by (simp add: setFloor_def requestIncrease_def cpuZone_def)








text \<open>
  C9. \<open>setPersisted(intf, prop)\<close> appends \<open>prop\<close> to the list of \<open>intf\<close> only when the
  list already holds it; when \<open>prop\<close> was not recorded, \<open>isPersisted(intf, prop)\<close> is
  still false afterwards.
\<close>

theorem setPersisted_appends_only_when_present:
  "persistedProps (setPersisted intf prop z) intf =
     (if prop \<in> set (persistedProps z intf) then persistedProps z intf @ [prop]
      else persistedProps z intf)
   \<and> (\<not> isPersisted intf prop z \<longrightarrow> \<not> isPersisted intf prop (setPersisted intf prop z))"
  by (auto simp: setPersisted_def isPersisted_def persistedProps_def Let_def list_ex_iff
      split: option.splits)

theorem setPersisted_appends_only_when_present_witness:
  "\<not> isPersisted thermModeIntf currentProp cpuZone
   \<and> \<not> isPersisted thermModeIntf currentProp (setPersisted thermModeIntf currentProp cpuZone)
   \<and> persistedProps (setPersisted thermModeIntf currentProp cpuZone) thermModeIntf = []"
proof -
  have n: "\<not> isPersisted thermModeIntf currentProp cpuZone"
    by (simp add: isPersisted_def cpuZone_def)
  have p: "persistedProps cpuZone thermModeIntf = []"
    by (simp add: persistedProps_def cpuZone_def)
  from setPersisted_appends_only_when_present [of thermModeIntf currentProp cpuZone] n p
  show ?thesis by simp
qed

section \<open>Properties of the caches\<close>

text \<open>
  C4. For every pair of keys, \<open>inConfig(input, comp)\<close> is true iff the names are equal
  and either the input has no profiles or some profile occurs in both profile lists and in
  the list of active profiles.
\<close>

theorem inConfig_iff:
  "inConfig activeProfs input cmp \<longleftrightarrow>
     fst input = fst cmp
     \<and> (snd input = []
        \<or> (\<exists>profile. profile \<in> set (snd input) \<and> profile \<in> set (snd cmp)
              \<and> profile \<in> set activeProfs))"
  by (auto simp: inConfig_def list_ex_iff)

theorem inConfig_iff_witness:
  "inConfig [''air''] (''fan0'', [''water'', ''air'']) (''fan0'', [''air''])
   \<and> \<not> inConfig [''water''] (''fan0'', [''water'', ''air'']) (''fan0'', [''air''])
   \<and> inConfig [] (''fan0'', []) (''fan0'', [''air''])
   \<and> \<not> inConfig [''air''] (''fan0'', [''air'']) (''fan1'', [''air''])"
  using inConfig_iff [of "[''air'']" "(''fan0'', [''water'', ''air''])" "(''fan0'', [''air''])"]
    inConfig_iff [of "[''water'']" "(''fan0'', [''water'', ''air''])" "(''fan0'', [''air''])"]
    inConfig_iff [of "[]" "(''fan0'', [])" "(''fan0'', [''air''])"]
    inConfig_iff [of "[''air'']" "(''fan0'', [''air''])" "(''fan1'', [''air''])"]
  by simp

text \<open>
  Lookups after \<open>m[k] = v\<close>, and after a loop that rewrites the values of a map in place.
\<close>

lemma map_of_map_put: "map_of (map_put k v m) = (map_of m)(k \<mapsto> v)"
  by (induction m) (auto simp: fun_eq_iff)

lemma map_of_map_keep:
  assumes "\<And>e. fst (h e) = fst e"
  shows "map_of (map h m) k = (case map_of m k of None \<Rightarrow> None | Some v \<Rightarrow> Some (snd (h (k, v))))"
proof (induction m)
  case Nil
  show ?case by simp
next
  case (Cons e m)
  obtain k' v' where e: "e = (k', v')" by (cases e)
  from assms [of e] obtain w where h: "h (k', v') = (k', w)"
    by (cases "h (k', v')") (simp add: e)
  show ?case using Cons.IH by (simp add: h e)
qed

text \<open>
  C5. After \<open>setOwner(path, serv, intf, isOwned)\<close> the entry of \<open>path\<close> and \<open>serv\<close> holds
  the flag \<open>isOwned\<close> and lists \<open>intf\<close>; and every entry of the services cache, under any
  path, for the service \<open>serv\<close> whose interfaces contain \<open>intf\<close> has its owned flag equal
  to \<open>isOwned\<close>.
\<close>

theorem setOwner_propagates:
  "(\<exists>services intfs.
      map_of (setOwner path serv intf isOwned servTree) path = Some services
      \<and> map_of services serv = Some (isOwned, intfs) \<and> intf \<in> set intfs)
   \<and> (\<forall>p services owned intfs.
        map_of (setOwner path serv intf isOwned servTree) p = Some services
        \<and> map_of services serv = Some (owned, intfs) \<and> intf \<in> set intfs
        \<longrightarrow> owned = isOwned)"
proof -
  define services where "services = (case map_of servTree path of None \<Rightarrow> [] | Some ss \<Rightarrow> ss)"
  define ownIntf where
    "ownIntf = (case map_of services serv of None \<Rightarrow> (False, []) | Some oi \<Rightarrow> oi)"
  define intfs where
    "intfs = (if list_ex (\<lambda>interface. intf = interface) (snd ownIntf)
              then snd ownIntf else snd ownIntf @ [intf])"
  define servTree1 where
    "servTree1 = map_put path (map_put serv (isOwned, intfs) services) servTree"
  define others where
    "others = (\<lambda>itServ::string \<times> bool \<times> string list.
                 if fst itServ \<noteq> serv then itServ
                 else if list_ex (\<lambda>interface. intf = interface) (snd (snd itServ))
                 then (fst itServ, (isOwned, snd (snd itServ)))
                 else itServ)"
  define h where
    "h = (\<lambda>itPath::string \<times> (string \<times> bool \<times> string list) list.
            if fst itPath = path then itPath
            else (fst itPath, map others (snd itPath)))"
  have res: "setOwner path serv intf isOwned servTree = map h servTree1"
    by (simp add: setOwner_def Let_def services_def ownIntf_def intfs_def servTree1_def
        others_def h_def)
  have hk: "\<And>e. fst (h e) = fst e" by (simp add: h_def)
  have ok: "\<And>e. fst (others e) = fst e" by (simp add: others_def)
  have lk: "map_of (map h servTree1) p =
      (case map_of servTree1 p of None \<Rightarrow> None | Some v \<Rightarrow> Some (snd (h (p, v))))" for p
    by (rule map_of_map_keep [OF hk])
  have i: "intf \<in> set intfs" by (auto simp: intfs_def list_ex_iff)
  have "map_of servTree1 path = Some (map_put serv (isOwned, intfs) services)"
    by (simp add: servTree1_def map_of_map_put)
  with lk [of path] have
    named: "map_of (map h servTree1) path = Some (map_put serv (isOwned, intfs) services)"
    by (simp add: h_def)
  have first: "\<exists>services intfs.
      map_of (setOwner path serv intf isOwned servTree) path = Some services
      \<and> map_of services serv = Some (isOwned, intfs) \<and> intf \<in> set intfs"
    unfolding res using named i by (auto simp: map_of_map_put)
  have second: "owned = isOwned"
    if a: "map_of (setOwner path serv intf isOwned servTree) p = Some ss"
      and b: "map_of ss serv = Some (owned, is)" and c: "intf \<in> set is" for p ss owned "is"
  proof (cases "p = path")
    case True
    with a named res have "ss = map_put serv (isOwned, intfs) services" by simp
    with b show ?thesis by (simp add: map_of_map_put)
  next
    case False
    from a obtain v where v: "map_of servTree1 p = Some v" and ss: "ss = snd (h (p, v))"
      unfolding res lk by (auto split: option.splits)
    from False ss have ss': "ss = map others v" by (simp add: h_def)
    from b obtain e where e: "map_of v serv = Some e"
      and oe: "(owned, is) = snd (others (serv, e))"
      unfolding ss' map_of_map_keep [OF ok] by (auto split: option.splits)
    from oe c show ?thesis by (auto simp: others_def list_ex_iff split: if_splits)
  qed
  from first second show ?thesis by blast
qed

theorem setOwner_propagates_witness:
  "map_of (setOwner ''/sensors/fan0'' ''fans'' ''Sensor.Value'' False twoFansTree)
     ''/sensors/fan1'' = Some [(''fans'', (hasOwner ''/sensors/fan1'' ''Sensor.Value''
        (setOwner ''/sensors/fan0'' ''fans'' ''Sensor.Value'' False twoFansTree),
        [''Sensor.Value'']))]
   \<and> hasOwner ''/sensors/fan1'' ''Sensor.Value'' twoFansTree
   \<and> \<not> hasOwner ''/sensors/fan1'' ''Sensor.Value''
         (setOwner ''/sensors/fan0'' ''fans'' ''Sensor.Value'' False twoFansTree)
   \<and> hasOwner ''/sensors/psu0'' ''Sensor.Value''
         (setOwner ''/sensors/fan0'' ''fans'' ''Sensor.Value'' False twoFansTree)"
proof -
  let ?t = "setOwner ''/sensors/fan0'' ''fans'' ''Sensor.Value'' False twoFansTree"
  let ?o = "hasOwner ''/sensors/fan1'' ''Sensor.Value'' ?t"
  have p: "map_of ?t ''/sensors/fan1'' = Some [(''fans'', (?o, [''Sensor.Value'']))]"
    by (simp add: setOwner_def twoFansTree_def hasOwner_def)
  have s: "map_of [(''fans'', (?o, [''Sensor.Value'']))] ''fans''
             = Some (?o, [''Sensor.Value''])"
    by simp
  have i: "''Sensor.Value'' \<in> set [''Sensor.Value'']" by simp
  from setOwner_propagates
    [of "''/sensors/fan0''" "''fans''" "''Sensor.Value''" False twoFansTree] p s i
  have n: "?o = False" by blast
  have b: "hasOwner ''/sensors/fan1'' ''Sensor.Value'' twoFansTree"
    by (simp add: twoFansTree_def hasOwner_def)
  have u: "hasOwner ''/sensors/psu0'' ''Sensor.Value'' ?t"
    by (simp add: setOwner_def twoFansTree_def hasOwner_def)
  from p n b u show ?thesis by simp
qed

text \<open>
  C6. The specification has the managed objects merged by key into the objects cache,
  fetched values overwriting cached ones. For a path that is cached, the loops of
  \<open>addObjects\<close> run over the cached interfaces and properties and assign each value to
  itself: the sensor that is cached with the speed 1000 and fetched with the speed 2000 is
  still at 1000 afterwards, while the sensor that was not cached is inserted as fetched.
\<close>

theorem addObjects_keeps_cached_value:
  "getProperty ''/sensors/fan0'' ''Sensor.Value'' ''Value'' (c_objects fanCache) = Some 1000
   \<and> getProperty ''/sensors/fan0'' ''Sensor.Value'' ''Value''
       (getManagedObjects fanBus ''fans'' ''/sensors'') = Some 2000
   \<and> c_objects (addObjects fanBus ''/sensors/fan0'' ''Sensor.Value'' ''Value'' fanCache)
       = [(''/sensors/fan0'', [(''Sensor.Value'', [(''Value'', 1000)])]),
          (''/sensors/fan1'', [(''Sensor.Value'', [(''Value'', 3000)])])]
   \<and> getProperty ''/sensors/fan0'' ''Sensor.Value'' ''Value''
       (c_objects (addObjects fanBus ''/sensors/fan0'' ''Sensor.Value'' ''Value'' fanCache))
       = Some 1000"
  by (simp add: addObjects_def getService_def findService_def fanCache_def fanServTree_def
      getPaths_def findPaths_def objectManagerIntf_def fanBus_def addObject_def
      mergeInterface_def mergeProperty_def getProperty_def map_insert_def Let_def)

section \<open>Properties of the manager\<close>

text \<open>
  A load that throws a \<open>std::runtime_error\<close> while no \<open>enable()\<close> throws has written
  nothing but the profiles and the active profiles.
\<close>

lemma enableAll_None: "\<forall>k. enable k = None \<Longrightarrow> enableAll enable ks = None"
  by (induction ks) (simp_all del: split_paired_All)

lemma setProfiles_keeps:
  "setProfiles env m = (r, m1) \<Longrightarrow>
     m_zones m1 = m_zones m \<and> m_events m1 = m_events m \<and> m_timers m1 = m_timers m
     \<and> m_signals m1 = m_signals m \<and> m_allGroups m1 = m_allGroups m
     \<and> m_loadAllowed m1 = m_loadAllowed m \<and> Manager.more m1 = Manager.more m"
  by (auto simp: setProfiles_def Let_def split: sum.splits option.splits if_splits)

lemma load_raise_keeps:
  assumes "load env m = (Some (RuntimeError re), m1)"
    and "\<forall>k. zoneEnable env k = None" and "\<forall>k. eventEnable env k = None"
  shows "m_zones m1 = m_zones m \<and> m_events m1 = m_events m \<and> m_timers m1 = m_timers m
     \<and> m_signals m1 = m_signals m \<and> m_allGroups m1 = m_allGroups m
     \<and> Manager.more m1 = Manager.more m"
proof (cases "m_loadAllowed m")
  case False
  with assms(1) show ?thesis by (simp add: load_def)
next
  case True
  obtain r mp where sp: "setProfiles env m = (r, mp)" by (cases "setProfiles env m")
  note k = setProfiles_keeps [OF sp]
  from assms(1) True sp k enableAll_None [OF assms(2)] enableAll_None [OF assms(3)]
  show ?thesis
    by (auto simp: load_def Let_def split: sum.splits option.splits exn.splits)
qed

text \<open>
  The path that the handler's message "Error reloading configs, no changes made" describes:
  when \<open>load()\<close> raises a \<open>std::runtime_error\<close> and no \<open>enable()\<close> throws, the profiles, the
  active profiles, the registered groups, the zones and the events (the timers and signals
  too) are what they were before the reload, and \<open>load()\<close> does nothing until the next
  SIGHUP.
\<close>

lemma reload_loading_failure_restores:
  assumes "fst (load env (reloadStart m)) = Some (RuntimeError re)"
    and "\<forall>k. zoneEnable env k = None" and "\<forall>k. eventEnable env k = None"
  shows "sighupHandler env m = (None, m\<lparr>m_loadAllowed := False\<rparr>)
         \<and> (\<forall>env'. load env' (snd (sighupHandler env m)) = (None, snd (sighupHandler env m)))"
proof -
  obtain m1 where l: "load env (reloadStart m) = (Some (RuntimeError re), m1)"
    using assms(1) by (cases "load env (reloadStart m)") simp
  from load_raise_keeps [OF l assms(2,3)] have
    "m1\<lparr>m_loadAllowed := False, m_profiles := m_profiles m,
        m_activeProfiles := m_activeProfiles m\<rparr> = m\<lparr>m_loadAllowed := False\<rparr>"
    by (intro Manager.equality) (simp_all add: reloadStart_def)
  with l have s: "sighupHandler env m = (None, m\<lparr>m_loadAllowed := False\<rparr>)"
    by (simp add: sighupHandler_def)
  then show ?thesis by (simp add: load_def)
qed

text \<open>Scenario S3 of the specification: the events file of the reload is malformed.\<close>

lemma reload_malformed_events:
  "fst (load badEventsEnv (reloadStart liveManager))
     = Some (RuntimeError ''Failed to parse JSON config file'')
   \<and> sighupHandler badEventsEnv liveManager = (None, liveManager)
   \<and> load badEnableEnv (snd (sighupHandler badEventsEnv liveManager)) = (None, liveManager)"
proof -
  have r: "fst (load badEventsEnv (reloadStart liveManager))
     = Some (RuntimeError ''Failed to parse JSON config file'')"
    by (simp add: load_def badEventsEnv_def reloadStart_def setProfiles_def)
  have z: "\<forall>k. zoneEnable badEventsEnv k = None" by (simp add: badEventsEnv_def)
  have e: "\<forall>k. eventEnable badEventsEnv k = None" by (simp add: badEventsEnv_def)
  have m: "liveManager\<lparr>m_loadAllowed := False\<rparr> = liveManager" by (simp add: liveManager_def)
  note t = reload_loading_failure_restores [OF r z e]
  from t have h: "sighupHandler badEventsEnv liveManager = (None, liveManager)"
    by (simp add: m)
  from t have "load badEnableEnv (snd (sighupHandler badEventsEnv liveManager))
      = (None, snd (sighupHandler badEventsEnv liveManager))"
    by blast
  with r h show ?thesis by simp
qed

text \<open>
  C3. The specification has every piece of live configuration state identical to its
  value before the reload whenever \<open>load()\<close> raises during a reload. \<open>load()\<close> moves the new
  zones into \<open>_zones\<close> before it calls \<open>enable()\<close> on them. In a reload of the manager that
  runs the zones A and B, the files load and \<open>enable()\<close> of the new zone C throws a
  \<open>std::runtime_error\<close>: the handler catches it, puts the profiles back and disallows
  loading, and the manager is left with the zone C alone and no registered group, next to
  the events, timers and signals of the old configuration.
\<close>

theorem reload_enable_throw_installs_zones:
  "fst (load badEnableEnv (reloadStart liveManager)) = Some (RuntimeError ''enable failed'')
   \<and> fst (sighupHandler badEnableEnv liveManager) = None
   \<and> map fst (m_zones liveManager) = [(''A'', []), (''B'', [])]
   \<and> map fst (m_zones (snd (sighupHandler badEnableEnv liveManager))) = [(''C'', [])]
   \<and> m_allGroups liveManager \<noteq> []
   \<and> m_allGroups (snd (sighupHandler badEnableEnv liveManager)) = []
   \<and> m_events (snd (sighupHandler badEnableEnv liveManager)) = m_events liveManager
   \<and> m_timers (snd (sighupHandler badEnableEnv liveManager)) = m_timers liveManager
   \<and> m_signals (snd (sighupHandler badEnableEnv liveManager)) = m_signals liveManager
   \<and> m_profiles (snd (sighupHandler badEnableEnv liveManager)) = m_profiles liveManager
   \<and> m_activeProfiles (snd (sighupHandler badEnableEnv liveManager))
       = m_activeProfiles liveManager
   \<and> \<not> m_loadAllowed (snd (sighupHandler badEnableEnv liveManager))"
  by (simp add: sighupHandler_def load_def badEnableEnv_def badEventsEnv_def
      reloadStart_def setProfiles_def liveManager_def inConfig_def addFan_def setTarget_def
      getTarget_def liveZone_def)

text \<open>
  The handler catches \<open>std::runtime_error\<close> only: an exception of another type leaves
  \<open>sighupHandler\<close> with the profiles of the reload in place and loading still allowed.
\<close>

lemma reload_other_exception_passes:
  "fst (sighupHandler badTypeEnv liveManager) = Some (OtherException ''type must be number'')
   \<and> m_profiles (snd (sighupHandler badTypeEnv liveManager)) = []
   \<and> m_profiles liveManager \<noteq> []
   \<and> m_loadAllowed (snd (sighupHandler badTypeEnv liveManager))"
  by (simp add: sighupHandler_def load_def badTypeEnv_def badEventsEnv_def
      reloadStart_def setProfiles_def liveManager_def)

text \<open>
  C8. \<open>powerStateChanged(true)\<close> with no zone throws a runtime error; with at least one
  zone it sets the target of every zone to its power-on target and runs the power-on
  triggers of every event; \<open>powerStateChanged(false)\<close> runs the power-off triggers of every
  event and leaves the zones as they are.
\<close>

theorem powerStateChanged_zones_and_triggers:
  "(m_zones m = [] \<longrightarrow>
      powerStateChanged True m = (Some (RuntimeError ''No configured zones found at poweron''), m))
   \<and> (m_zones m \<noteq> [] \<longrightarrow>
      fst (powerStateChanged True m) = None
      \<and> m_zones (snd (powerStateChanged True m))
          = map (\<lambda>entry. (fst entry, (snd entry)\<lparr>z_target := z_poweronTarget (snd entry)\<rparr>))
                (m_zones m)
      \<and> (\<forall>entry \<in> set (m_zones (snd (powerStateChanged True m))).
            z_target (snd entry) = z_poweronTarget (snd entry))
      \<and> m_events (snd (powerStateChanged True m))
          = map (\<lambda>entry. (fst entry, powerOn (snd entry))) (m_events m))
   \<and> fst (powerStateChanged False m) = None
   \<and> m_zones (snd (powerStateChanged False m)) = m_zones m
   \<and> m_events (snd (powerStateChanged False m))
       = map (\<lambda>entry. (fst entry, powerOff (snd entry))) (m_events m)"
  by (auto simp: powerStateChanged_def setTarget_def getPoweronTarget_def)

theorem powerStateChanged_zones_and_triggers_witness:
  "powerStateChanged True (liveManager\<lparr>m_zones := []\<rparr>)
     = (Some (RuntimeError ''No configured zones found at poweron''), liveManager\<lparr>m_zones := []\<rparr>)
   \<and> m_zones liveManager \<noteq> []
   \<and> map (\<lambda>entry. z_target (snd entry)) (m_zones (snd (powerStateChanged True liveManager)))
       = [200, 180]
   \<and> map (\<lambda>entry. ev_fired (snd entry)) (m_events (snd (powerStateChanged True liveManager)))
       = [[Init, PowerOn]]
   \<and> map (\<lambda>entry. z_target (snd entry)) (m_zones (snd (powerStateChanged False liveManager)))
       = [120, 120]
   \<and> map (\<lambda>entry. ev_fired (snd entry)) (m_events (snd (powerStateChanged False liveManager)))
       = [[Init, PowerOff]]"
proof -
  have e: "m_zones (liveManager\<lparr>m_zones := []\<rparr>) = []" by simp
  have n: "m_zones liveManager \<noteq> []" by (simp add: liveManager_def)
  note t0 = powerStateChanged_zones_and_triggers [of "liveManager\<lparr>m_zones := []\<rparr>"]
  note t1 = powerStateChanged_zones_and_triggers [of liveManager]
  from t0 e have a: "powerStateChanged True (liveManager\<lparr>m_zones := []\<rparr>)
     = (Some (RuntimeError ''No configured zones found at poweron''), liveManager\<lparr>m_zones := []\<rparr>)"
    by blast
  from t1 n have
    z: "m_zones (snd (powerStateChanged True liveManager))
          = map (\<lambda>entry. (fst entry, (snd entry)\<lparr>z_target := z_poweronTarget (snd entry)\<rparr>))
                (m_zones liveManager)" and
    v: "m_events (snd (powerStateChanged True liveManager))
          = map (\<lambda>entry. (fst entry, powerOn (snd entry))) (m_events liveManager)" and
    f: "m_zones (snd (powerStateChanged False liveManager)) = m_zones liveManager" and
    g: "m_events (snd (powerStateChanged False liveManager))
          = map (\<lambda>entry. (fst entry, powerOff (snd entry))) (m_events liveManager)"
    by blast+
  show ?thesis
    unfolding z v f g using a n
    by (simp add: liveManager_def liveZone_def liveEvent_def powerOn_def powerOff_def)
qed

section \<open>Properties of the fan monitor\<close>

text \<open>
  C7, as the specification states it: the fan becomes nonfunctional exactly when it was
  functional and enough sensors are nonfunctional. When the \<open>Notify\<close> call is answered with
  a method error, \<open>updateInventory\<close> returns before it writes \<open>_functional\<close>: with a
  threshold of 1, the expiry of the timer of a sensor leaves the fan functional.
\<close>

theorem timerExpired_counterexample:
  "mf_functional (fan0\<lparr>mf_numSensorFailsForNonFunc := 1\<rparr>)
   \<and> numNonfunctional (timerExpired True 1 (fan0\<lparr>mf_numSensorFailsForNonFunc := 1\<rparr>))
       \<ge> mf_numSensorFailsForNonFunc (fan0\<lparr>mf_numSensorFailsForNonFunc := 1\<rparr>)
   \<and> mf_functional (timerExpired True 1 (fan0\<lparr>mf_numSensorFailsForNonFunc := 1\<rparr>))"
  by (simp add: timerExpired_def updateInventory_def tooManySensorsNonfunctional_def
      numNonfunctional_def setFunctional_def fan0_def Let_def)

text \<open>
  C7, amended: on expiry of the timer of a sensor the sensor is marked nonfunctional; the
  \<open>Notify\<close> call with \<open>Functional = false\<close> is made exactly when the fan was functional and
  the number of nonfunctional sensors is at least \<open>num_sensor_fails_for_nonfunc\<close>; the fan
  goes from functional to nonfunctional exactly when, in addition, that call is not
  answered with a method error; if the count stays below the threshold the functional
  state of the fan is unchanged.
\<close>

theorem timerExpired_marks_and_demotes:
  assumes "sensor < length (mf_sensors fan)"
  shows "\<not> ts_functional (mf_sensors (timerExpired err sensor fan) ! sensor)
    \<and> (mf_functional fan \<and> \<not> mf_functional (timerExpired err sensor fan)
         \<longleftrightarrow> mf_functional fan
             \<and> numNonfunctional (timerExpired err sensor fan) \<ge> mf_numSensorFailsForNonFunc fan
             \<and> \<not> err)
    \<and> (mf_inventory (timerExpired err sensor fan)
         = (if mf_functional fan
               \<and> numNonfunctional (timerExpired err sensor fan) \<ge> mf_numSensorFailsForNonFunc fan
            then mf_inventory fan
                   @ [\<lparr>nc_fan = mf_name fan, nc_functional = False, nc_error = err\<rparr>]
            else mf_inventory fan))
    \<and> (numNonfunctional (timerExpired err sensor fan) < mf_numSensorFailsForNonFunc fan
         \<longrightarrow> mf_functional (timerExpired err sensor fan) = mf_functional fan)"
  using assms
  by (auto simp: timerExpired_def updateInventory_def tooManySensorsNonfunctional_def
      numNonfunctional_def setFunctional_def Let_def)

theorem timerExpired_marks_and_demotes_witness:
  "(1::nat) < length (mf_sensors fan0)
   \<and> map ts_functional (mf_sensors (timerExpired False 1 fan0)) = [False, False, True]
   \<and> numNonfunctional (timerExpired False 1 fan0) = 2
   \<and> \<not> mf_functional (timerExpired False 1 fan0)
   \<and> mf_inventory (timerExpired False 1 fan0)
       = mf_inventory fan0 @ [\<lparr>nc_fan = ''fan0'', nc_functional = False, nc_error = False\<rparr>]"
proof -
  have l: "(1::nat) < length (mf_sensors fan0)" by (simp add: fan0_def)
  have s: "map ts_functional (mf_sensors (timerExpired False 1 fan0)) = [False, False, True]"
    by (simp add: timerExpired_def updateInventory_def tooManySensorsNonfunctional_def
        setFunctional_def fan0_def Let_def)
  have n: "numNonfunctional (timerExpired False 1 fan0) = 2"
    by (simp add: numNonfunctional_def timerExpired_def updateInventory_def
        tooManySensorsNonfunctional_def setFunctional_def fan0_def Let_def)
  have f: "mf_functional fan0" "mf_numSensorFailsForNonFunc fan0 = 2" "mf_name fan0 = ''fan0''"
    by (simp_all add: fan0_def)
  from timerExpired_marks_and_demotes [OF l, of False] l s n f show ?thesis by simp
qed

text \<open>
  The flag of the fan and the last value published with success, one call at a time.
\<close>

lemma lastPublished_snoc:
  "lastPublished (calls @ [c]) = (if nc_error c then lastPublished calls else Some (nc_functional c))"
  by (simp add: lastPublished_def split: list.splits)

lemma updateInventory_tracks:
  assumes "mf_functional fan = (case lastPublished (mf_inventory fan) of None \<Rightarrow> b | Some p \<Rightarrow> p)"
  shows "mf_functional (updateInventory err functional fan)
       = (case lastPublished (mf_inventory (updateInventory err functional fan)) of
            None \<Rightarrow> b | Some p \<Rightarrow> p)"
  using assms by (simp add: updateInventory_def Let_def lastPublished_snoc)

lemma updateAll_tracks:
  assumes "mf_functional fan = (case lastPublished (mf_inventory fan) of None \<Rightarrow> b | Some p \<Rightarrow> p)"
  shows "mf_functional (updateAll calls fan)
       = (case lastPublished (mf_inventory (updateAll calls fan)) of None \<Rightarrow> b | Some p \<Rightarrow> p)"
  using assms unfolding updateAll_def
proof (induction calls arbitrary: fan)
  case Nil
  then show ?case by simp
next
  case (Cons c calls)
  from Cons.IH [OF updateInventory_tracks [OF Cons.prems]] show ?case by simp
qed

text \<open>
  C10. \<open>updateInventory(functional)\<close> changes \<open>_functional\<close> only when the \<open>Notify\<close> call
  succeeds: with a method error the flag keeps its value. So after any run of calls the
  flag is the value that the last successful call published, and its initial value when no
  call has succeeded.
\<close>

theorem updateInventory_flag_follows_success:
  "mf_functional (updateInventory err functional fan)
     = (if err then mf_functional fan else functional)
   \<and> (mf_inventory fan = [] \<longrightarrow>
        mf_functional (updateAll calls fan)
          = (case lastPublished (mf_inventory (updateAll calls fan)) of
               None \<Rightarrow> mf_functional fan
             | Some published \<Rightarrow> published))"
proof -
  have "mf_functional (updateAll calls fan)
          = (case lastPublished (mf_inventory (updateAll calls fan)) of
               None \<Rightarrow> mf_functional fan
             | Some published \<Rightarrow> published)" if "mf_inventory fan = []"
    by (rule updateAll_tracks) (simp add: that lastPublished_def)
  then show ?thesis by (simp add: updateInventory_def Let_def)
qed

theorem updateInventory_flag_follows_success_witness:
  "mf_inventory (fan0\<lparr>mf_inventory := []\<rparr>) = []
   \<and> mf_functional (updateInventory True False fan0)
   \<and> \<not> mf_functional (updateInventory False False fan0)
   \<and> lastPublished (mf_inventory
        (updateAll [(True, False), (False, False), (True, True)] (fan0\<lparr>mf_inventory := []\<rparr>)))
       = Some False
   \<and> \<not> mf_functional
        (updateAll [(True, False), (False, False), (True, True)] (fan0\<lparr>mf_inventory := []\<rparr>))"
proof -
  have e: "mf_inventory (fan0\<lparr>mf_inventory := []\<rparr>) = []" by simp
  have p: "lastPublished (mf_inventory
        (updateAll [(True, False), (False, False), (True, True)] (fan0\<lparr>mf_inventory := []\<rparr>)))
       = Some False"
    by (simp add: updateAll_def updateInventory_def lastPublished_def fan0_def)
  have f: "mf_functional fan0" by (simp add: fan0_def)
  from updateInventory_flag_follows_success [of True False fan0 "[]"]
    updateInventory_flag_follows_success [of False False fan0 "[]"]
    updateInventory_flag_follows_success
      [of False False "fan0\<lparr>mf_inventory := []\<rparr>" "[(True, False), (False, False), (True, True)]"]
    e p f
  show ?thesis by simp
qed

end
